theory Spec2Isabelle
  imports Main "HOL-Library.Multiset"
begin

text \<open>
  A calendar application: a REST interface over a collection of events
  (\<^verbatim>\<open>server/routes/events.js\<close>, \<^verbatim>\<open>server/models/Event.js\<close>) and a browser client that
  filters the events per day and per hour slot (\<^verbatim>\<open>client/src/utils/dateUtils.js\<close>) and
  places them on an hour grid (\<^verbatim>\<open>DayView.js\<close>, \<^verbatim>\<open>WeekView.js\<close>). The routes are
  functions from a request and the store to a response and the store afterwards; the
  platform's date parser, the store's sort and the driver's identifier check are
  parameters.
\<close>

section \<open>JavaScript dates and numbers\<close>

text \<open>
  A JavaScript \<^verbatim>\<open>Date\<close> is a time value in milliseconds since the epoch, or the
  Invalid Date (time value NaN). The relational operators convert both operands to
  numbers, and every comparison with NaN is false.
\<close>

datatype jsdate = Date int | InvalidDate

fun isNaN_getTime :: "jsdate \<Rightarrow> bool" where
  "isNaN_getTime (Date t) = False"
| "isNaN_getTime InvalidDate = True"

fun js_lt :: "jsdate \<Rightarrow> jsdate \<Rightarrow> bool" where
  "js_lt (Date a) (Date b) = (a < b)"
| "js_lt _ _ = False"

fun js_le :: "jsdate \<Rightarrow> jsdate \<Rightarrow> bool" where
  "js_le (Date a) (Date b) = (a \<le> b)"
| "js_le _ _ = False"

fun js_gt :: "jsdate \<Rightarrow> jsdate \<Rightarrow> bool" where
  "js_gt (Date a) (Date b) = (a > b)"
| "js_gt _ _ = False"

fun js_ge :: "jsdate \<Rightarrow> jsdate \<Rightarrow> bool" where
  "js_ge (Date a) (Date b) = (a \<ge> b)"
| "js_ge _ _ = False"

text \<open>
  A request value is a string or absent (\<^verbatim>\<open>undefined\<close>). A string is falsy exactly when
  it is empty.
\<close>

fun truthy :: "string option \<Rightarrow> bool" where
  "truthy None = False"
| "truthy (Some s) = (s \<noteq> [])"

text \<open>
  \<^verbatim>\<open>new Date(s)\<close> on a string is the platform's parser, not code of this repository:
  the operations below take it as the parameter \<open>new_Date\<close>. The table \<open>sample_Date\<close>
  lists its value on the ISO 8601 strings used in the examples.
\<close>

definition sample_Date :: "string \<Rightarrow> jsdate" where
  "sample_Date s =
     (if s = ''2024-01-10T00:00:00.000Z'' then Date 1704844800000
      else if s = ''2024-01-14T00:00:00.000Z'' then Date 1705190400000
      else if s = ''2024-01-15T10:00:00.000Z'' then Date 1705312800000
      else if s = ''2024-01-15T10:30:00.000Z'' then Date 1705314600000
      else if s = ''2024-01-15T11:00:00.000Z'' then Date 1705316400000
      else if s = ''2024-01-15T12:00:00.000Z'' then Date 1705320000000
      else if s = ''2024-01-15T22:00:00.000Z'' then Date 1705356000000
      else if s = ''2024-01-16T00:00:00.000Z'' then Date 1705363200000
      else if s = ''2024-01-16T02:00:00.000Z'' then Date 1705370400000
      else if s = ''2024-01-20T00:00:00.000Z'' then Date 1705708800000
      else InvalidDate)"

text \<open>The constructor on a request value; \<^verbatim>\<open>new Date(undefined)\<close> is the Invalid Date.\<close>

fun construct_Date :: "(string \<Rightarrow> jsdate) \<Rightarrow> string option \<Rightarrow> jsdate" where
  "construct_Date new_Date None = InvalidDate"
| "construct_Date new_Date (Some s) = new_Date s"

section \<open>The event model (server/models/Event.js)\<close>

record event =
  eid :: string
  title :: string
  description :: string
  startTime :: int
  endTime :: int
  allDay :: bool
  color :: string
  location :: string
  recurring :: string
  createdAt :: int
  updatedAt :: int

text \<open>The collection, in the order the store assigned (insertion order).\<close>

type_synonym store = "event list"

datatype mongoose_error =
    ValidationError string
  | CastError string
  | PlainError string

definition is_space :: "char \<Rightarrow> bool" where
  "is_space c = (of_char c \<in> {9, 10, 11, 12, 13, 32, 160 :: nat})"

definition trim :: "string \<Rightarrow> string" where
  "trim s = rev (dropWhile is_space (rev (dropWhile is_space s)))"

definition recurring_enum :: "string list" where
  "recurring_enum = [''none'', ''daily'', ''weekly'', ''monthly'', ''yearly'']"

text \<open>
  The schema's validators on a document: \<open>title\<close> required with at most 200 characters,
  \<open>description\<close> at most 1000, \<open>location\<close> at most 200, \<open>recurring\<close> in its enum, and
  the validator of \<open>endTime\<close>. The error names the failing path.
\<close>

definition endTime_validator :: "int option \<Rightarrow> int option \<Rightarrow> bool" where
  "endTime_validator this_startTime v =
     (case (this_startTime, v) of
        (Some s, Some e) \<Rightarrow> e > s
      | _ \<Rightarrow> True)"

definition validate_document :: "event \<Rightarrow> mongoose_error option" where
  "validate_document d =
     (if title d = [] then Some (ValidationError ''title'')
      else if length (title d) > 200 then Some (ValidationError ''title'')
      else if length (description d) > 1000 then Some (ValidationError ''description'')
      else if \<not> endTime_validator (Some (startTime d)) (Some (endTime d))
        then Some (ValidationError ''endTime'')
      else if length (location d) > 200 then Some (ValidationError ''location'')
      else if recurring d \<notin> set recurring_enum then Some (ValidationError ''recurring'')
      else None)"

text \<open>\<^verbatim>\<open>eventSchema.pre('save')\<close>: the cross-field check, then \<open>updatedAt\<close> is refreshed.\<close>

definition pre_save :: "int \<Rightarrow> event \<Rightarrow> mongoose_error + event" where
  "pre_save now d =
     (if endTime d \<le> startTime d then Inl (PlainError ''End time must be after start time'')
      else Inr (d\<lparr>updatedAt := now\<rparr>))"

text \<open>
  \<^verbatim>\<open>event.save()\<close> of a new document: the setter \<^verbatim>\<open>trim\<close> of \<open>title\<close>, validation, the
  pre-save hook, then the insert, which the store refuses when the identifier is taken
  (the message of that error is abbreviated).
\<close>

definition save :: "int \<Rightarrow> event \<Rightarrow> store \<Rightarrow> mongoose_error + (event \<times> store)" where
  "save now d st =
     (case validate_document (d\<lparr>title := trim (title d)\<rparr>) of
        Some err \<Rightarrow> Inl err
      | None \<Rightarrow>
          (case pre_save now (d\<lparr>title := trim (title d)\<rparr>) of
             Inl err \<Rightarrow> Inl err
           | Inr d' \<Rightarrow>
               if eid d' \<in> set (map eid st) then Inl (PlainError ''E11000 duplicate key error'')
               else Inr (d', st @ [d'])))"

definition findById :: "string \<Rightarrow> store \<Rightarrow> event option" where
  "findById i st = find (\<lambda>e. eid e = i) st"

section \<open>Store filters\<close>

text \<open>
  The filter documents the list route builds: a condition on a date field with the
  operators \<^verbatim>\<open>$gte\<close> and \<^verbatim>\<open>$lte\<close>, \<^verbatim>\<open>$or\<close>, \<^verbatim>\<open>$and\<close>, and the empty filter \<^verbatim>\<open>{}\<close>.
\<close>

datatype field = StartTime | EndTime

datatype cmp = Gte int | Lte int

datatype mquery =
    MatchAll
  | Cond field "cmp list"
  | Or "mquery list"
  | And "mquery list"

fun field_value :: "field \<Rightarrow> event \<Rightarrow> int" where
  "field_value StartTime ev = startTime ev"
| "field_value EndTime ev = endTime ev"

fun cmp_holds :: "cmp \<Rightarrow> int \<Rightarrow> bool" where
  "cmp_holds (Gte d) v = (v \<ge> d)"
| "cmp_holds (Lte d) v = (v \<le> d)"

fun matches :: "mquery \<Rightarrow> event \<Rightarrow> bool"
  and matches_any :: "mquery list \<Rightarrow> event \<Rightarrow> bool"
  and matches_all :: "mquery list \<Rightarrow> event \<Rightarrow> bool" where
  "matches MatchAll ev = True"
| "matches (Cond f cs) ev = list_all (\<lambda>c. cmp_holds c (field_value f ev)) cs"
| "matches (Or qs) ev = matches_any qs ev"
| "matches (And qs) ev = matches_all qs ev"
| "matches_any [] ev = False"
| "matches_any (q # qs) ev = (matches q ev \<or> matches_any qs ev)"
| "matches_all [] ev = True"
| "matches_all (q # qs) ev = (matches q ev \<and> matches_all qs ev)"

text \<open>
  \<^verbatim>\<open>Event.find(query).sort({ startTime: 1 })\<close>: the matching documents, in the order
  the store's sort gives them. The store is outside the repository, so its sort is the
  parameter \<open>store_sort\<close>. What the call asks of it is \<open>sorts_by_startTime\<close>: the
  result holds the same documents, ascending by \<open>startTime\<close>; the order among
  documents with equal \<open>startTime\<close> is left to the store.
\<close>

definition find_sorted :: "(event list \<Rightarrow> event list) \<Rightarrow> mquery \<Rightarrow> store \<Rightarrow> event list" where
  "find_sorted store_sort q st = store_sort (filter (matches q) st)"

definition sorts_by_startTime :: "(event list \<Rightarrow> event list) \<Rightarrow> bool" where
  "sorts_by_startTime store_sort \<longleftrightarrow>
     (\<forall>xs. sorted (map startTime (store_sort xs)) \<and> mset (store_sort xs) = mset xs)"

text \<open>
  Two sorts that meet \<open>sorts_by_startTime\<close>: \<open>stable_sort\<close> keeps documents with equal
  \<open>startTime\<close> in stored order; \<open>index_sort\<close> returns the documents in the order of
  the schema's index \<^verbatim>\<open>{ startTime: 1, endTime: 1 }\<close>, ascending by \<open>endTime\<close> among
  equal \<open>startTime\<close>.
\<close>

definition stable_sort :: "event list \<Rightarrow> event list" where
  "stable_sort xs = sort_key startTime xs"


section \<open>The routes (server/routes/events.js)\<close>

text \<open>
  A response is a status and a JSON body. \<open>Error m\<close> is the body \<^verbatim>\<open>{ error: m }\<close>;
  \<open>SchemaError p\<close> is \<^verbatim>\<open>{ error: error.message }\<close> for a validation failure on the
  path \<open>p\<close>, whose message the schema library composes; \<open>Deleted m ev\<close> is
  \<^verbatim>\<open>{ message: m, event: ev }\<close>.
\<close>

datatype body =
    Null
  | Error string
  | SchemaError string
  | Events "event list"
  | EventDoc event
  | Deleted string event

datatype response = Response nat body

fun status :: "response \<Rightarrow> nat" where
  "status (Response n b) = n"

fun json :: "response \<Rightarrow> body" where
  "json (Response n b) = b"

text \<open>The \<^verbatim>\<open>catch\<close> blocks of the create and update routes.\<close>

fun catch_write :: "mongoose_error \<Rightarrow> response" where
  "catch_write (ValidationError p) = Response 400 (SchemaError p)"
| "catch_write (CastError p) = Response 400 (Error ''Invalid data format'')"
| "catch_write (PlainError m) = Response 500 (Error m)"

record list_query =
  startDate :: "string option"
  endDate :: "string option"

text \<open>
  \<^verbatim>\<open>GET /\<close>. The query parameters are strings or absent. After the two checks both
  dates are valid, so the last branch of the case distinction is not reached.
\<close>

definition overlap_query :: "int \<Rightarrow> int \<Rightarrow> mquery" where
  "overlap_query start end =
     Or [Cond StartTime [Gte start, Lte end],
         Cond EndTime [Gte start, Lte end],
         And [Cond StartTime [Lte start], Cond EndTime [Gte end]]]"

definition get_events ::
  "(event list \<Rightarrow> event list) \<Rightarrow> (string \<Rightarrow> jsdate) \<Rightarrow> list_query \<Rightarrow> store \<Rightarrow> response" where
  "get_events store_sort new_Date q st =
     (if truthy (startDate q) \<and> truthy (endDate q) then
        (let start = construct_Date new_Date (startDate q);
             end = construct_Date new_Date (endDate q)
         in if isNaN_getTime start \<or> isNaN_getTime end
              then Response 400 (Error ''Invalid date format. Use ISO 8601 format.'')
            else if js_lt end start
              then Response 400 (Error ''endDate must be after startDate'')
            else (case (start, end) of
                    (Date s, Date e) \<Rightarrow>
                      Response 200 (Events (find_sorted store_sort (overlap_query s e) st))
                  | _ \<Rightarrow> Response 400 (Error ''Invalid date format. Use ISO 8601 format.'')))
      else Response 200 (Events (find_sorted store_sort MatchAll st)))"

text \<open>\<^verbatim>\<open>GET /:id\<close>. The identifier check of the driver is the parameter \<open>isValid\<close>.\<close>

definition get_event :: "(string \<Rightarrow> bool) \<Rightarrow> string \<Rightarrow> store \<Rightarrow> response" where
  "get_event isValid i st =
     (if \<not> isValid i then Response 400 (Error ''Invalid event ID format'')
      else (case findById i st of
              None \<Rightarrow> Response 404 (Error ''Event not found'')
            | Some ev \<Rightarrow> Response 200 (EventDoc ev)))"

record create_body =
  c_title :: "string option"
  c_description :: "string option"
  c_startTime :: "string option"
  c_endTime :: "string option"
  c_allDay :: "bool option"
  c_color :: "string option"
  c_location :: "string option"
  c_recurring :: "string option"

text \<open>\<^verbatim>\<open>x || d\<close> on an optional string, and on an optional boolean.\<close>

fun or_default :: "string option \<Rightarrow> string \<Rightarrow> string" where
  "or_default None d = d"
| "or_default (Some s) d = (if s = [] then d else s)"

fun or_false :: "bool option \<Rightarrow> bool" where
  "or_false None = False"
| "or_false (Some b) = b"

text \<open>
  \<^verbatim>\<open>POST /\<close>. \<open>now\<close> is the clock and \<open>oid\<close> the identifier generated for the new
  document. The result is the response and the store after the request. Where the
  document is constructed both dates are valid, so the last branch of the case
  distinction is not reached.
\<close>

definition post_event ::
  "(string \<Rightarrow> jsdate) \<Rightarrow> int \<Rightarrow> string \<Rightarrow> create_body \<Rightarrow> store \<Rightarrow> response \<times> store" where
  "post_event new_Date now oid b st =
     (if \<not> truthy (c_title b) \<or> \<not> truthy (c_startTime b) \<or> \<not> truthy (c_endTime b)
        then (Response 400 (Error ''Title, startTime, and endTime are required''), st)
      else
        (let startDate = construct_Date new_Date (c_startTime b);
             endDate = construct_Date new_Date (c_endTime b);
             t = or_default (c_title b) []
         in if isNaN_getTime startDate
              then (Response 400 (Error ''Invalid startTime format''), st)
            else if isNaN_getTime endDate
              then (Response 400 (Error ''Invalid endTime format''), st)
            else if js_le endDate startDate
              then (Response 400 (Error ''End time must be after start time''), st)
            else if length (trim t) = 0
              then (Response 400 (Error ''Title cannot be empty''), st)
            else if length t > 200
              then (Response 400 (Error ''Title cannot exceed 200 characters''), st)
            else
              (case (startDate, endDate) of
                 (Date s, Date e) \<Rightarrow>
                   (case save now
                           \<lparr>eid = oid, title = trim t,
                            description = or_default (c_description b) [],
                            startTime = s, endTime = e,
                            allDay = or_false (c_allDay b),
                            color = or_default (c_color b) ''#4285f4'',
                            location = or_default (c_location b) [],
                            recurring = or_default (c_recurring b) ''none'',
                            createdAt = now, updatedAt = now\<rparr> st of
                      Inl err \<Rightarrow> (catch_write err, st)
                    | Inr (savedEvent, st') \<Rightarrow> (Response 201 (EventDoc savedEvent), st'))
               | _ \<Rightarrow> (Response 400 (Error ''Invalid startTime format''), st))))"

text \<open>\<^verbatim>\<open>DELETE /:id\<close>: \<^verbatim>\<open>findByIdAndDelete\<close> removes the document and returns it.\<close>

definition findByIdAndDelete :: "string \<Rightarrow> store \<Rightarrow> event option \<times> store" where
  "findByIdAndDelete i st =
     (case findById i st of
        None \<Rightarrow> (None, st)
      | Some ev \<Rightarrow> (Some ev, remove1 ev st))"

definition delete_event :: "(string \<Rightarrow> bool) \<Rightarrow> string \<Rightarrow> store \<Rightarrow> response \<times> store" where
  "delete_event isValid i st =
     (if \<not> isValid i then (Response 400 (Error ''Invalid event ID format''), st)
      else (case findByIdAndDelete i st of
              (None, st') \<Rightarrow> (Response 404 (Error ''Event not found''), st')
            | (Some ev, st') \<Rightarrow> (Response 200 (Deleted ''Event deleted successfully'' ev), st')))"

section \<open>Partial update\<close>

record update_body =
  p_title :: "string option"
  p_description :: "string option"
  p_startTime :: "string option"
  p_endTime :: "string option"
  p_allDay :: "bool option"
  p_color :: "string option"
  p_location :: "string option"
  p_recurring :: "string option"

text \<open>The \<^verbatim>\<open>updateData\<close> object of the route: a key is present when its field is \<open>Some\<close>.\<close>

record update_data =
  u_title :: "string option"
  u_description :: "string option"
  u_startTime :: "jsdate option"
  u_endTime :: "jsdate option"
  u_allDay :: "bool option"
  u_color :: "string option"
  u_location :: "string option"
  u_recurring :: "string option"
  u_updatedAt :: int

text \<open>\<^verbatim>\<open>eventSchema.pre(['findOneAndUpdate', 'findByIdAndUpdate'])\<close>.\<close>

definition pre_findOneAndUpdate :: "update_data \<Rightarrow> mongoose_error option" where
  "pre_findOneAndUpdate u =
     (case (u_endTime u, u_startTime u) of
        (Some endTime', Some startTime') \<Rightarrow>
          if isNaN_getTime endTime' \<or> isNaN_getTime startTime'
            then Some (PlainError ''Invalid date format'')
          else if js_le endTime' startTime'
            then Some (PlainError ''End time must be after start time'')
          else None
      | _ \<Rightarrow> None)"

text \<open>
  Casting and the validators of the updated paths (\<^verbatim>\<open>runValidators: true\<close>). In an update
  the validator of \<open>endTime\<close> runs with \<^verbatim>\<open>this\<close> bound to the query, which has no
  \<open>startTime\<close>.
\<close>

fun date_value :: "jsdate \<Rightarrow> int option" where
  "date_value (Date t) = Some t"
| "date_value InvalidDate = None"

definition validate_update :: "update_data \<Rightarrow> mongoose_error option" where
  "validate_update u =
     (if u_startTime u = Some InvalidDate then Some (CastError ''startTime'')
      else if u_endTime u = Some InvalidDate then Some (CastError ''endTime'')
      else if (case u_title u of Some t \<Rightarrow> trim t = [] \<or> length (trim t) > 200 | None \<Rightarrow> False)
        then Some (ValidationError ''title'')
      else if (case u_description u of Some d \<Rightarrow> length d > 1000 | None \<Rightarrow> False)
        then Some (ValidationError ''description'')
      else if (case u_endTime u of
                 Some e \<Rightarrow> \<not> endTime_validator None (date_value e)
               | None \<Rightarrow> False)
        then Some (ValidationError ''endTime'')
      else if (case u_location u of Some l \<Rightarrow> length l > 200 | None \<Rightarrow> False)
        then Some (ValidationError ''location'')
      else if (case u_recurring u of Some r \<Rightarrow> r \<notin> set recurring_enum | None \<Rightarrow> False)
        then Some (ValidationError ''recurring'')
      else None)"

fun set_string :: "string option \<Rightarrow> string \<Rightarrow> string" where
  "set_string None old = old"
| "set_string (Some v) old = v"

fun set_bool :: "bool option \<Rightarrow> bool \<Rightarrow> bool" where
  "set_bool None old = old"
| "set_bool (Some v) old = v"

fun set_date :: "jsdate option \<Rightarrow> int \<Rightarrow> int" where
  "set_date (Some (Date t)) old = t"
| "set_date _ old = old"

definition apply_update :: "update_data \<Rightarrow> event \<Rightarrow> event" where
  "apply_update u ev =
     ev\<lparr>title := set_string (map_option trim (u_title u)) (title ev),
        description := set_string (u_description u) (description ev),
        startTime := set_date (u_startTime u) (startTime ev),
        endTime := set_date (u_endTime u) (endTime ev),
        allDay := set_bool (u_allDay u) (allDay ev),
        color := set_string (u_color u) (color ev),
        location := set_string (u_location u) (location ev),
        recurring := set_string (u_recurring u) (recurring ev),
        updatedAt := u_updatedAt u\<rparr>"

fun update_first :: "string \<Rightarrow> (event \<Rightarrow> event) \<Rightarrow> store \<Rightarrow> store" where
  "update_first i f [] = []"
| "update_first i f (e # es) = (if eid e = i then f e # es else e # update_first i f es)"

text \<open>\<^verbatim>\<open>Event.findByIdAndUpdate(id, updateData, { new: true, runValidators: true })\<close>.\<close>

definition findByIdAndUpdate ::
  "string \<Rightarrow> update_data \<Rightarrow> store \<Rightarrow> mongoose_error + (event option \<times> store)" where
  "findByIdAndUpdate i u st =
     (case pre_findOneAndUpdate u of
        Some err \<Rightarrow> Inl err
      | None \<Rightarrow>
          (case validate_update u of
             Some err \<Rightarrow> Inl err
           | None \<Rightarrow>
               (case findById i st of
                  None \<Rightarrow> Inr (None, st)
                | Some ev \<Rightarrow> Inr (Some (apply_update u ev), update_first i (apply_update u) st))))"

fun json_event :: "event option \<Rightarrow> body" where
  "json_event None = Null"
| "json_event (Some ev) = EventDoc ev"

text \<open>
  \<^verbatim>\<open>x !== undefined ? new Date(x) : existing\<close>: the supplied value when the payload has
  the field, the stored one otherwise.
\<close>

definition effective :: "(string \<Rightarrow> jsdate) \<Rightarrow> string option \<Rightarrow> int \<Rightarrow> jsdate" where
  "effective new_Date supplied stored =
     (case supplied of Some s \<Rightarrow> new_Date s | None \<Rightarrow> Date stored)"

text \<open>\<^verbatim>\<open>PUT /:id\<close>.\<close>

definition put_event ::
  "(string \<Rightarrow> bool) \<Rightarrow> (string \<Rightarrow> jsdate) \<Rightarrow> int \<Rightarrow> string \<Rightarrow> update_body \<Rightarrow> store
     \<Rightarrow> response \<times> store" where
  "put_event isValid new_Date now i b st =
     (if \<not> isValid i then (Response 400 (Error ''Invalid event ID format''), st)
      else
        (case findById i st of
           None \<Rightarrow> (Response 404 (Error ''Event not found''), st)
         | Some existingEvent \<Rightarrow>
             (let newStartTime = effective new_Date (p_startTime b) (startTime existingEvent);
                  newEndTime = effective new_Date (p_endTime b) (endTime existingEvent)
              in if js_le newEndTime newStartTime
                   then (Response 400 (Error ''End time must be after start time''), st)
                 else if p_startTime b \<noteq> None \<and> isNaN_getTime newStartTime
                   then (Response 400 (Error ''Invalid startTime format''), st)
                 else if p_endTime b \<noteq> None \<and> isNaN_getTime newEndTime
                   then (Response 400 (Error ''Invalid endTime format''), st)
                 else
                   (case findByIdAndUpdate i
                           \<lparr>u_title = p_title b,
                            u_description = p_description b,
                            u_startTime = map_option (\<lambda>_. newStartTime) (p_startTime b),
                            u_endTime = map_option (\<lambda>_. newEndTime) (p_endTime b),
                            u_allDay = p_allDay b,
                            u_color = p_color b,
                            u_location = p_location b,
                            u_recurring = p_recurring b,
                            u_updatedAt = now\<rparr> st of
                      Inl err \<Rightarrow> (catch_write err, st)
                    | Inr (ev, st') \<Rightarrow> (Response 200 (json_event ev), st')))))"

section \<open>Client dates (date-fns and \<^verbatim>\<open>Date.prototype\<close>)\<close>

text \<open>
  The client works in local time. The zone is a fixed offset \<open>off\<close> in milliseconds
  (local time is the time value plus \<open>off\<close>), so every local day has 86400000
  milliseconds; a change of offset within the displayed days is not modelled.
  \<^verbatim>\<open>parseISO\<close> is the library's parser and is taken as a parameter.
\<close>

definition startOfDay :: "int \<Rightarrow> int \<Rightarrow> int" where
  "startOfDay off t = t - (t + off) mod 86400000"

definition endOfDay :: "int \<Rightarrow> int \<Rightarrow> int" where
  "endOfDay off t = startOfDay off t + 86399999"

definition getHours :: "int \<Rightarrow> int \<Rightarrow> int" where
  "getHours off t = (t + off) mod 86400000 div 3600000"

definition getMinutes :: "int \<Rightarrow> int \<Rightarrow> int" where
  "getMinutes off t = (t + off) mod 3600000 div 60000"

text \<open>date-fns \<^verbatim>\<open>setHours\<close> and \<^verbatim>\<open>setMinutes\<close> replace one component and keep the others.\<close>

definition setHours :: "int \<Rightarrow> int \<Rightarrow> int \<Rightarrow> int" where
  "setHours off t h = t + (h - getHours off t) * 3600000"

definition setMinutes :: "int \<Rightarrow> int \<Rightarrow> int \<Rightarrow> int" where
  "setMinutes off t m = t + (m - getMinutes off t) * 60000"

text \<open>\<^verbatim>\<open>d.setHours(h, m, s, ms)\<close> of \<^verbatim>\<open>Date.prototype\<close> replaces all four.\<close>

definition setHours4 :: "int \<Rightarrow> int \<Rightarrow> int \<Rightarrow> int \<Rightarrow> int \<Rightarrow> int \<Rightarrow> int" where
  "setHours4 off t h m s ms = startOfDay off t + h * 3600000 + m * 60000 + s * 1000 + ms"

fun on_date :: "(int \<Rightarrow> int) \<Rightarrow> jsdate \<Rightarrow> jsdate" where
  "on_date f (Date t) = Date (f t)"
| "on_date f InvalidDate = InvalidDate"

text \<open>A JavaScript number that is an integer or NaN (\<open>None\<close>).\<close>

type_synonym jsnum = "int option"

fun num_of_date :: "(int \<Rightarrow> int) \<Rightarrow> jsdate \<Rightarrow> jsnum" where
  "num_of_date f (Date t) = Some (f t)"
| "num_of_date f InvalidDate = None"

fun lift2 :: "(int \<Rightarrow> int \<Rightarrow> int) \<Rightarrow> jsnum \<Rightarrow> jsnum \<Rightarrow> jsnum" where
  "lift2 f (Some a) (Some b) = Some (f a b)"
| "lift2 f _ _ = None"

section \<open>Client filters (client/src/utils/dateUtils.js)\<close>

text \<open>An event as the client holds it: the timestamps are ISO 8601 strings.\<close>

record wire_event =
  w_id :: string
  w_title :: string
  w_startTime :: string
  w_endTime :: string
  w_allDay :: bool

definition getDayStart :: "int \<Rightarrow> jsdate \<Rightarrow> jsdate" where
  "getDayStart off date = on_date (startOfDay off) date"

definition getDayEnd :: "int \<Rightarrow> jsdate \<Rightarrow> jsdate" where
  "getDayEnd off date = on_date (endOfDay off) date"

definition getEventsForDay ::
  "(string \<Rightarrow> jsdate) \<Rightarrow> int \<Rightarrow> wire_event list \<Rightarrow> jsdate \<Rightarrow> wire_event list" where
  "getEventsForDay parseISO off events day =
     (let dayStart = getDayStart off day;
          dayEnd = getDayEnd off day
      in filter (\<lambda>event.
           let eventStart = parseISO (w_startTime event);
               eventEnd = parseISO (w_endTime event)
           in (js_ge eventStart dayStart \<and> js_le eventStart dayEnd) \<or>
              (js_ge eventEnd dayStart \<and> js_le eventEnd dayEnd) \<or>
              (js_le eventStart dayStart \<and> js_ge eventEnd dayEnd)) events)"

definition getEventsForTimeSlot ::
  "(string \<Rightarrow> jsdate) \<Rightarrow> int \<Rightarrow> wire_event list \<Rightarrow> jsdate \<Rightarrow> int \<Rightarrow> wire_event list" where
  "getEventsForTimeSlot parseISO off events date hour =
     (let slotStart = on_date (\<lambda>t. setMinutes off (setHours off t hour) 0) date;
          slotEnd = on_date (\<lambda>t. setMinutes off (setHours off t (hour + 1)) 0) date
      in filter (\<lambda>event.
           let eventStart = parseISO (w_startTime event);
               eventEnd = parseISO (w_endTime event)
           in (js_ge eventStart slotStart \<and> js_lt eventStart slotEnd) \<or>
              (js_gt eventEnd slotStart \<and> js_le eventEnd slotEnd) \<or>
              (js_le eventStart slotStart \<and> js_ge eventEnd slotEnd)) events)"

section \<open>Layout (client/src/components/DayView.js, WeekView.js)\<close>

text \<open>
  A style value is the number \<^verbatim>\<open>0\<close>, the keyword \<^verbatim>\<open>'auto'\<close>, or a template
  \<^verbatim>\<open>`${n}px`\<close> of a number.
\<close>

datatype css = Num int | Auto | Px jsnum

record position =
  top :: css
  height :: css

definition position_px :: "jsnum \<Rightarrow> jsnum \<Rightarrow> jsnum \<Rightarrow> jsnum \<Rightarrow> position" where
  "position_px startHour startMinute endHour endMinute =
     (let startPositionPx = lift2 (+) (lift2 (*) startHour (Some 60)) startMinute;
          durationPx =
            lift2 (-) (lift2 (+) (lift2 (*) endHour (Some 60)) endMinute)
                      (lift2 (+) (lift2 (*) startHour (Some 60)) startMinute);
          minHeightPx = Some 20
      in \<lparr>top = Px startPositionPx, height = Px (lift2 max durationPx minHeightPx)\<rparr>)"

definition DayView_getEventPosition ::
  "(string \<Rightarrow> jsdate) \<Rightarrow> int \<Rightarrow> wire_event \<Rightarrow> position" where
  "DayView_getEventPosition parseISO off event =
     (let eventStart = parseISO (w_startTime event);
          eventEnd = parseISO (w_endTime event)
      in if w_allDay event then \<lparr>top = Num 0, height = Auto\<rparr>
         else position_px
                (num_of_date (getHours off) eventStart) (num_of_date (getMinutes off) eventStart)
                (num_of_date (getHours off) eventEnd) (num_of_date (getMinutes off) eventEnd))"

text \<open>The filter of the day view: the events that overlap the displayed day.\<close>

definition DayView_dayEvents ::
  "(string \<Rightarrow> jsdate) \<Rightarrow> int \<Rightarrow> wire_event list \<Rightarrow> jsdate \<Rightarrow> wire_event list" where
  "DayView_dayEvents parseISO off events currentDate =
     filter (\<lambda>event.
       let eventStart = parseISO (w_startTime event);
           eventEnd = parseISO (w_endTime event);
           dayStart = on_date (\<lambda>t. setHours4 off t 0 0 0 0) currentDate;
           dayEnd = on_date (\<lambda>t. setHours4 off t 23 59 59 999) currentDate
       in (js_ge eventStart dayStart \<and> js_le eventStart dayEnd) \<or>
          (js_ge eventEnd dayStart \<and> js_le eventEnd dayEnd) \<or>
          (js_le eventStart dayStart \<and> js_ge eventEnd dayEnd)) events"

text \<open>The positions the day view renders: one per timed event of the displayed day.\<close>

definition DayView_positions ::
  "(string \<Rightarrow> jsdate) \<Rightarrow> int \<Rightarrow> wire_event list \<Rightarrow> jsdate \<Rightarrow> (wire_event \<times> position) list" where
  "DayView_positions parseISO off events currentDate =
     map (\<lambda>event. (event, DayView_getEventPosition parseISO off event))
       (filter (\<lambda>event. \<not> w_allDay event) (DayView_dayEvents parseISO off events currentDate))"

definition WeekView_getEventPosition ::
  "(string \<Rightarrow> jsdate) \<Rightarrow> int \<Rightarrow> wire_event \<Rightarrow> jsdate \<Rightarrow> position" where
  "WeekView_getEventPosition parseISO off event day =
     (let eventStart = parseISO (w_startTime event);
          eventEnd = parseISO (w_endTime event)
      in if w_allDay event then \<lparr>top = Num 0, height = Auto\<rparr>
         else
           (let dayStart = on_date (\<lambda>t. setHours4 off t 0 0 0 0) day;
                dayEnd = on_date (\<lambda>t. setHours4 off t 23 59 59 999) day;
                effectiveStart = (if js_lt eventStart dayStart then dayStart else eventStart);
                effectiveEnd = (if js_gt eventEnd dayEnd then dayEnd else eventEnd)
            in position_px
                 (num_of_date (getHours off) effectiveStart)
                 (num_of_date (getMinutes off) effectiveStart)
                 (num_of_date (getHours off) effectiveEnd)
                 (num_of_date (getMinutes off) effectiveEnd)))"

text \<open>The positions the week view renders in the column of \<open>day\<close>.\<close>

definition WeekView_positions ::
  "(string \<Rightarrow> jsdate) \<Rightarrow> int \<Rightarrow> wire_event list \<Rightarrow> jsdate \<Rightarrow> (wire_event \<times> position) list" where
  "WeekView_positions parseISO off events day =
     map (\<lambda>event. (event, WeekView_getEventPosition parseISO off event day))
       (filter (\<lambda>event. \<not> w_allDay event) (getEventsForDay parseISO off events day))"

section \<open>Sample data\<close>

definition sample_store :: store where
  "sample_store =
     [\<lparr>eid = ''a1'', title = ''Conference'', description = [],
       startTime = 1704844800000, endTime = 1705708800000, allDay = False,
       color = ''#4285f4'', location = [], recurring = ''none'',
       createdAt = 1704000000000, updatedAt = 1704000000000\<rparr>,
      \<lparr>eid = ''a2'', title = ''Standup'', description = [],
       startTime = 1705312800000, endTime = 1705314600000, allDay = False,
       color = ''#4285f4'', location = [], recurring = ''none'',
       createdAt = 1704000000001, updatedAt = 1704000000001\<rparr>,
      \<lparr>eid = ''a3'', title = ''Review'', description = [],
       startTime = 1705312800000, endTime = 1705316400000, allDay = False,
       color = ''#4285f4'', location = [], recurring = ''none'',
       createdAt = 1704000000002, updatedAt = 1704000000002\<rparr>]"

definition sample_create :: "string \<Rightarrow> string \<Rightarrow> create_body" where
  "sample_create s e =
     \<lparr>c_title = Some ''Standup'', c_description = None, c_startTime = Some s,
      c_endTime = Some e, c_allDay = None, c_color = None, c_location = None,
      c_recurring = None\<rparr>"

definition sample_update :: "string option \<Rightarrow> string option \<Rightarrow> update_body" where
  "sample_update s e =
     \<lparr>p_title = None, p_description = None, p_startTime = s, p_endTime = e,
      p_allDay = None, p_color = None, p_location = None, p_recurring = None\<rparr>"

definition sample_wire :: "wire_event list" where
  "sample_wire =
     [\<lparr>w_id = ''a1'', w_title = ''Conference'', w_startTime = ''2024-01-10T00:00:00.000Z'',
       w_endTime = ''2024-01-20T00:00:00.000Z'', w_allDay = False\<rparr>,
      \<lparr>w_id = ''a2'', w_title = ''Standup'', w_startTime = ''2024-01-15T10:00:00.000Z'',
       w_endTime = ''2024-01-15T10:30:00.000Z'', w_allDay = False\<rparr>,
      \<lparr>w_id = ''a4'', w_title = ''Night shift'', w_startTime = ''2024-01-15T22:00:00.000Z'',
       w_endTime = ''2024-01-16T02:00:00.000Z'', w_allDay = False\<rparr>,
      \<lparr>w_id = ''a3'', w_title = ''Review'', w_startTime = ''2024-01-15T10:00:00.000Z'',
       w_endTime = ''2024-01-15T11:00:00.000Z'', w_allDay = False\<rparr>]"

section \<open>Properties of the list route\<close>

lemma matches_overlap_query:
  "matches (overlap_query s e) ev \<longleftrightarrow>
     (s \<le> startTime ev \<and> startTime ev \<le> e) \<or>
     (s \<le> endTime ev \<and> endTime ev \<le> e) \<or>
     (startTime ev \<le> s \<and> e \<le> endTime ev)"
  by (simp add: overlap_query_def)

lemma get_events_ranged:
  assumes "startDate q = Some a" "endDate q = Some b" "a \<noteq> []" "b \<noteq> []"
    and "new_Date a = Date s" "new_Date b = Date e" "s \<le> e"
  shows "get_events store_sort new_Date q st =
           Response 200 (Events (find_sorted store_sort (overlap_query s e) st))"
  using assms by (simp add: get_events_def)



lemma get_events_unbounded:
  assumes "\<not> truthy (startDate q) \<or> \<not> truthy (endDate q)"
  shows "get_events store_sort new_Date q st = Response 200 (Events (store_sort st))"
  using assms by (auto simp: get_events_def find_sorted_def)


lemma mset_find_sorted:
  "sorts_by_startTime store_sort \<Longrightarrow>
   mset (find_sorted store_sort q st) = mset (filter (matches q) st)"
  by (simp add: find_sorted_def sorts_by_startTime_def)

lemma set_find_sorted:
  assumes "sorts_by_startTime store_sort"
  shows "set (find_sorted store_sort q st) = {ev \<in> set st. matches q ev}"
proof -
  have "set (find_sorted store_sort q st) = set (filter (matches q) st)"
    using mset_find_sorted [OF assms, of q st] by (rule mset_eq_setD)
  then show ?thesis by auto
qed


lemma sorts_stable_sort: "sorts_by_startTime stable_sort"
  by (simp add: sorts_by_startTime_def stable_sort_def)



lemma sample_Date_simps:
  "sample_Date ''2024-01-10T00:00:00.000Z'' = Date 1704844800000"
  "sample_Date ''2024-01-14T00:00:00.000Z'' = Date 1705190400000"
  "sample_Date ''2024-01-15T10:00:00.000Z'' = Date 1705312800000"
  "sample_Date ''2024-01-15T10:30:00.000Z'' = Date 1705314600000"
  "sample_Date ''2024-01-15T11:00:00.000Z'' = Date 1705316400000"
  "sample_Date ''2024-01-15T12:00:00.000Z'' = Date 1705320000000"
  "sample_Date ''2024-01-15T22:00:00.000Z'' = Date 1705356000000"
  "sample_Date ''2024-01-16T00:00:00.000Z'' = Date 1705363200000"
  "sample_Date ''2024-01-16T02:00:00.000Z'' = Date 1705370400000"
  "sample_Date ''2024-01-20T00:00:00.000Z'' = Date 1705708800000"
  "sample_Date ''bad'' = InvalidDate"
  by (simp_all add: sample_Date_def)

section \<open>Properties of the client filters\<close>

lemma startOfDay_midnight: "(startOfDay off d + off) mod 86400000 = 0"
  unfolding startOfDay_def by (simp add: algebra_simps mod_simps)

lemma startOfDay_le: "startOfDay off d \<le> d" "d < startOfDay off d + 86400000"
  unfolding startOfDay_def by simp_all

lemma getEventsForDay_iff:
  assumes "parseISO (w_startTime E) = Date x" "parseISO (w_endTime E) = Date y"
  shows "E \<in> set (getEventsForDay parseISO off events (Date d)) \<longleftrightarrow>
         E \<in> set events \<and>
         ((startOfDay off d \<le> x \<and> x \<le> startOfDay off d + 86399999) \<or>
          (startOfDay off d \<le> y \<and> y \<le> startOfDay off d + 86399999) \<or>
          (x \<le> startOfDay off d \<and> startOfDay off d + 86399999 \<le> y))"
  using assms by (auto simp: getEventsForDay_def getDayStart_def getDayEnd_def endOfDay_def Let_def)

text \<open>
  Claim C1. A list request with a parsed range \<open>[s, e]\<close> returns exactly the stored
  events whose start lies in \<open>[s, e]\<close>, or whose end lies in \<open>[s, e]\<close>, or that
  contain the range; all comparisons are inclusive. The per-day filter of the client
  decides by the same three clauses, with the bounds 00:00:00.000 and 23:59:59.999 of
  the local day of \<open>d\<close>.
\<close>

theorem inclusive_overlap:
  assumes "sorts_by_startTime store_sort"
    and "startDate q = Some a" "endDate q = Some b" "a \<noteq> []" "b \<noteq> []"
    and "new_Date a = Date s" "new_Date b = Date e" "s \<le> e"
    and "parseISO (w_startTime E) = Date x" "parseISO (w_endTime E) = Date y"
    and "ds = startOfDay off d" "de = ds + 86399999"
  shows "(\<exists>evs. get_events store_sort new_Date q st = Response 200 (Events evs) \<and>
            (\<forall>ev. ev \<in> set evs \<longleftrightarrow>
               ev \<in> set st \<and>
               ((s \<le> startTime ev \<and> startTime ev \<le> e) \<or>
                (s \<le> endTime ev \<and> endTime ev \<le> e) \<or>
                (startTime ev \<le> s \<and> e \<le> endTime ev)))) \<and>
         (E \<in> set (getEventsForDay parseISO off events (Date d)) \<longleftrightarrow>
            E \<in> set events \<and>
            ((ds \<le> x \<and> x \<le> de) \<or> (ds \<le> y \<and> y \<le> de) \<or> (x \<le> ds \<and> de \<le> y))) \<and>
         (ds + off) mod 86400000 = 0 \<and> ds \<le> d \<and> d \<le> de"
proof (intro conjI)
  show "\<exists>evs. get_events store_sort new_Date q st = Response 200 (Events evs) \<and>
            (\<forall>ev. ev \<in> set evs \<longleftrightarrow>
               ev \<in> set st \<and>
               ((s \<le> startTime ev \<and> startTime ev \<le> e) \<or>
                (s \<le> endTime ev \<and> endTime ev \<le> e) \<or>
                (startTime ev \<le> s \<and> e \<le> endTime ev)))"
    using get_events_ranged [OF assms(2-8), of store_sort st]
    by (simp add: set_find_sorted [OF assms(1)] matches_overlap_query)
  show "E \<in> set (getEventsForDay parseISO off events (Date d)) \<longleftrightarrow>
            E \<in> set events \<and>
            ((ds \<le> x \<and> x \<le> de) \<or> (ds \<le> y \<and> y \<le> de) \<or> (x \<le> ds \<and> de \<le> y))"
    using getEventsForDay_iff [OF assms(9,10)] assms(11,12) by simp
  show "(ds + off) mod 86400000 = 0" using assms(11) startOfDay_midnight by simp
  show "ds \<le> d" using assms(11) startOfDay_le(1) by simp
  show "d \<le> de" using assms(11,12) startOfDay_le(2) [of d off] by simp
qed

theorem inclusive_overlap_witness:
  "(\<exists>evs. get_events stable_sort sample_Date
            \<lparr>startDate = Some ''2024-01-14T00:00:00.000Z'',
             endDate = Some ''2024-01-16T00:00:00.000Z''\<rparr> sample_store =
            Response 200 (Events evs) \<and> sample_store ! 0 \<in> set evs) \<and>
   sample_wire ! 0 \<in> set (getEventsForDay sample_Date 0 sample_wire (Date 1705320000000))"
proof -
  have h: "sample_Date ''2024-01-14T00:00:00.000Z'' = Date 1705190400000"
    "sample_Date ''2024-01-16T00:00:00.000Z'' = Date 1705363200000"
    "sample_Date (w_startTime (sample_wire ! 0)) = Date 1704844800000"
    "sample_Date (w_endTime (sample_wire ! 0)) = Date 1705708800000"
    "(1705276800000 :: int) = startOfDay 0 1705320000000"
    by (simp_all add: sample_Date_simps sample_wire_def startOfDay_def)
  have "sample_store ! 0 \<in> set sample_store" "sample_wire ! 0 \<in> set sample_wire"
    "startTime (sample_store ! 0) = 1704844800000" "endTime (sample_store ! 0) = 1705708800000"
    by (simp_all add: sample_store_def sample_wire_def)
  with inclusive_overlap [OF sorts_stable_sort, of "\<lparr>startDate = Some ''2024-01-14T00:00:00.000Z'',
             endDate = Some ''2024-01-16T00:00:00.000Z''\<rparr>" "''2024-01-14T00:00:00.000Z''"
      "''2024-01-16T00:00:00.000Z''" sample_Date 1705190400000 1705363200000 sample_Date
      "sample_wire ! 0" 1704844800000 1705708800000 1705276800000 0 1705320000000
      1705363199999 sample_store sample_wire] h
  show ?thesis by auto
qed

section \<open>Validation and order of the list route\<close>



text \<open>
  Claim C10. A list request with exactly one of the two bounds present ignores that
  bound: nothing is validated, and the response is that of the request without bounds,
  every stored event.
\<close>

theorem single_bound_ignored:
  assumes "sorts_by_startTime store_sort"
    and "(startDate q = None \<and> endDate q = Some b) \<or> (startDate q = Some a \<and> endDate q = None)"
  shows "get_events store_sort new_Date q st = Response 200 (Events (store_sort st)) \<and>
         get_events store_sort new_Date q st =
           get_events store_sort new_Date \<lparr>startDate = None, endDate = None\<rparr> st \<and>
         mset (store_sort st) = mset st"
proof -
  have 1: "get_events store_sort new_Date q st = Response 200 (Events (store_sort st))"
    using assms(2) by (intro get_events_unbounded) auto
  have 2: "get_events store_sort new_Date \<lparr>startDate = None, endDate = None\<rparr> st =
           Response 200 (Events (store_sort st))"
    by (intro get_events_unbounded) simp
  have 3: "mset (store_sort st) = mset st"
    using assms(1) by (simp add: sorts_by_startTime_def)
  show ?thesis using 1 2 3 by simp
qed

theorem single_bound_ignored_witness:
  "get_events stable_sort sample_Date \<lparr>startDate = Some ''bad'', endDate = None\<rparr> sample_store =
     Response 200 (Events (stable_sort sample_store)) \<and>
   get_events stable_sort sample_Date
     \<lparr>startDate = None, endDate = Some ''2024-01-10T00:00:00.000Z''\<rparr> sample_store =
     get_events stable_sort sample_Date \<lparr>startDate = None, endDate = None\<rparr> sample_store \<and>
   mset (stable_sort sample_store) = mset sample_store"
proof -
  have a: "(startDate \<lparr>startDate = Some ''bad'', endDate = None\<rparr> = None \<and>
            endDate \<lparr>startDate = Some ''bad'', endDate = None\<rparr> = Some []) \<or>
           (startDate \<lparr>startDate = Some ''bad'', endDate = None\<rparr> = Some ''bad'' \<and>
            endDate \<lparr>startDate = Some ''bad'', endDate = None\<rparr> = None)"
    by simp
  have b: "(startDate \<lparr>startDate = None, endDate = Some ''2024-01-10T00:00:00.000Z''\<rparr> = None \<and>
            endDate \<lparr>startDate = None, endDate = Some ''2024-01-10T00:00:00.000Z''\<rparr> =
              Some ''2024-01-10T00:00:00.000Z'') \<or>
           (startDate \<lparr>startDate = None, endDate = Some ''2024-01-10T00:00:00.000Z''\<rparr> = Some [] \<and>
            endDate \<lparr>startDate = None, endDate = Some ''2024-01-10T00:00:00.000Z''\<rparr> = None)"
    by simp
  from single_bound_ignored [OF sorts_stable_sort a, of sample_Date sample_store]
    single_bound_ignored [OF sorts_stable_sort b, of sample_Date sample_store]
  show ?thesis by blast
qed




section \<open>Properties of delete\<close>

lemma findById_None: "findById i st = None \<longleftrightarrow> i \<notin> eid ` set st"
  by (auto simp: findById_def find_None_iff)

lemma findById_Some: "findById i st = Some ev \<Longrightarrow> ev \<in> set st \<and> eid ev = i"
  by (auto simp: findById_def find_Some_iff)

lemma remove1_distinct_ids:
  assumes "distinct (map eid st)" "ev \<in> set st"
  shows "remove1 ev st = filter (\<lambda>e. eid e \<noteq> eid ev) st"
  using assms
proof (induction st)
  case Nil
  then show ?case by simp
next
  case (Cons x xs)
  show ?case
  proof (cases "x = ev")
    case True
    with Cons.prems have "eid ev \<notin> eid ` set xs" by auto
    then have "\<forall>e\<in>set xs. eid e \<noteq> eid ev" by (metis imageI)
    then have "filter (\<lambda>e. eid e \<noteq> eid ev) xs = xs"
      by (intro filter_True)
    with True show ?thesis by simp
  next
    case False
    with Cons.prems have in_xs: "ev \<in> set xs" and d: "distinct (map eid xs)"
      and "eid x \<notin> eid ` set xs" by auto
    then have "eid x \<noteq> eid ev" by auto
    with False Cons.IH [OF d in_xs] show ?thesis by simp
  qed
qed

text \<open>
  Claim C9. Deleting by a well-formed identifier: when no record has it, the response is
  404 and the store is unchanged; otherwise the record is removed and the response
  carries the record as it was stored.
\<close>

theorem delete_by_id:
  assumes "isValid i" "distinct (map eid st)"
  shows "(i \<notin> eid ` set st \<longrightarrow>
            delete_event isValid i st = (Response 404 (Error ''Event not found''), st)) \<and>
         (i \<in> eid ` set st \<longrightarrow>
            (\<exists>ev. ev \<in> set st \<and> eid ev = i \<and>
               delete_event isValid i st =
                 (Response 200 (Deleted ''Event deleted successfully'' ev),
                  filter (\<lambda>e. eid e \<noteq> i) st)))"
proof (intro conjI impI)
  assume "i \<notin> eid ` set st"
  then have "findById i st = None" by (simp add: findById_None)
  with assms(1) show "delete_event isValid i st = (Response 404 (Error ''Event not found''), st)"
    by (simp add: delete_event_def findByIdAndDelete_def)
next
  assume "i \<in> eid ` set st"
  then obtain ev where f: "findById i st = Some ev"
    using findById_None [of i st] by (cases "findById i st") auto
  then have m: "ev \<in> set st" "eid ev = i" using findById_Some by auto
  have "remove1 ev st = filter (\<lambda>e. eid e \<noteq> i) st"
    using remove1_distinct_ids [OF assms(2) m(1)] m(2) by simp
  with f assms(1) m show "\<exists>ev. ev \<in> set st \<and> eid ev = i \<and>
               delete_event isValid i st =
                 (Response 200 (Deleted ''Event deleted successfully'' ev),
                  filter (\<lambda>e. eid e \<noteq> i) st)"
    by (auto simp: delete_event_def findByIdAndDelete_def)
qed

theorem delete_by_id_witness:
  "delete_event (\<lambda>i. True) ''zz'' sample_store =
     (Response 404 (Error ''Event not found''), sample_store) \<and>
   (\<exists>ev. ev \<in> set sample_store \<and> eid ev = ''a2'' \<and>
      delete_event (\<lambda>i. True) ''a2'' sample_store =
        (Response 200 (Deleted ''Event deleted successfully'' ev),
         [sample_store ! 0, sample_store ! 2]))"
proof -
  have d: "distinct (map eid sample_store)" by (simp add: sample_store_def)
  have f: "filter (\<lambda>e. eid e \<noteq> ''a2'') sample_store = [sample_store ! 0, sample_store ! 2]"
    by (simp add: sample_store_def)
  have n: "''zz'' \<notin> eid ` set sample_store" "''a2'' \<in> eid ` set sample_store"
    by (simp_all add: sample_store_def)
  from delete_by_id [of "\<lambda>i. True" "''zz''" sample_store, OF _ d]
    delete_by_id [of "\<lambda>i. True" "''a2''" sample_store, OF _ d] n f
  show ?thesis by simp
qed

section \<open>Properties of create\<close>

lemma save_cases:
  "(\<exists>err. save now d st = Inl err) \<or> (\<exists>d'. save now d st = Inr (d', st @ [d']) \<and> startTime d' < endTime d')"
  by (auto simp: save_def pre_save_def split: option.splits)

lemma post_event_no_write:
  "status (fst (post_event new_Date now oid b st)) \<noteq> 201 \<Longrightarrow>
   snd (post_event new_Date now oid b st) = st"
  by (auto simp: post_event_def Let_def split: jsdate.splits sum.splits prod.splits)

lemma post_event_rejects:
  assumes "construct_Date new_Date (c_startTime b) = Date s"
    and "construct_Date new_Date (c_endTime b) = Date e" and "e \<le> s"
  shows "post_event new_Date now oid b st =
           (Response 400 (Error ''Title, startTime, and endTime are required''), st) \<or>
         post_event new_Date now oid b st =
           (Response 400 (Error ''End time must be after start time''), st)"
  using assms by (simp add: post_event_def Let_def)

text \<open>
  Claim C5. A create request whose end is not after its start is answered with status
  400 and leaves the store as it was. Every validation precedes the write: whenever
  the response is not 201 the store is unchanged.
\<close>

theorem create_rejects_inverted:
  assumes "construct_Date new_Date (c_startTime b) = Date s"
    and "construct_Date new_Date (c_endTime b) = Date e" and "e \<le> s"
  shows "status (fst (post_event new_Date now oid b st)) = 400 \<and>
         snd (post_event new_Date now oid b st) = st \<and>
         (\<forall>b'. status (fst (post_event new_Date now oid b' st)) \<noteq> 201 \<longrightarrow>
               snd (post_event new_Date now oid b' st) = st)"
  using post_event_rejects [OF assms, of now oid st] post_event_no_write [of new_Date now oid _ st]
  by auto

theorem create_rejects_inverted_witness:
  "post_event sample_Date 1704000000009 ''a9''
     (sample_create ''2024-01-15T10:00:00.000Z'' ''2024-01-15T10:00:00.000Z'') sample_store =
     (Response 400 (Error ''End time must be after start time''), sample_store) \<and>
   status (fst (post_event sample_Date 1704000000009 ''a9''
     (sample_create ''2024-01-15T10:00:00.000Z'' ''2024-01-15T10:00:00.000Z'') sample_store)) = 400 \<and>
   snd (post_event sample_Date 1704000000009 ''a9''
     (sample_create ''2024-01-15T12:00:00.000Z'' ''2024-01-15T10:00:00.000Z'') sample_store) =
     sample_store"
proof -
  have h: "construct_Date sample_Date
             (c_startTime (sample_create ''2024-01-15T10:00:00.000Z'' ''2024-01-15T10:00:00.000Z'')) =
           Date 1705312800000"
    "construct_Date sample_Date
             (c_endTime (sample_create ''2024-01-15T10:00:00.000Z'' ''2024-01-15T10:00:00.000Z'')) =
           Date 1705312800000"
    "construct_Date sample_Date
             (c_startTime (sample_create ''2024-01-15T12:00:00.000Z'' ''2024-01-15T10:00:00.000Z'')) =
           Date 1705320000000"
    "construct_Date sample_Date
             (c_endTime (sample_create ''2024-01-15T12:00:00.000Z'' ''2024-01-15T10:00:00.000Z'')) =
           Date 1705312800000"
    by (simp_all add: sample_create_def sample_Date_simps)
  have e: "post_event sample_Date 1704000000009 ''a9''
     (sample_create ''2024-01-15T10:00:00.000Z'' ''2024-01-15T10:00:00.000Z'') sample_store =
     (Response 400 (Error ''End time must be after start time''), sample_store)"
    by (simp add: post_event_def sample_create_def sample_Date_simps)
  from create_rejects_inverted [OF h(1,2), of 1704000000009 "''a9''" sample_store]
    create_rejects_inverted [OF h(3,4), of 1704000000009 "''a9''" sample_store] e
  show ?thesis by simp
qed

section \<open>Properties of partial update\<close>

lemma findById_update_first:
  "findById i st = Some ev \<Longrightarrow> eid (f ev) = i \<Longrightarrow> findById i (update_first i f st) = Some (f ev)"
  by (induction st) (auto simp: findById_def)

lemma eid_apply_update: "eid (apply_update u ev) = eid ev"
  by (simp add: apply_update_def)

lemma status_catch_write: "status (catch_write err) \<noteq> 200"
  by (cases err) simp_all

lemma json_catch_write_validation:
  "validate_update u = Some err \<Longrightarrow> u_startTime u \<noteq> Some InvalidDate \<Longrightarrow>
   u_endTime u \<noteq> Some InvalidDate \<Longrightarrow> \<exists>p. catch_write err = Response 400 (SchemaError p)"
  by (auto simp: validate_update_def split: if_splits)

lemma put_event_no_write:
  "status (fst (put_event isValid new_Date now i b st)) \<noteq> 200 \<Longrightarrow>
   snd (put_event isValid new_Date now i b st) = st"
  by (auto simp: put_event_def Let_def split: option.splits sum.splits prod.splits if_splits)

lemma put_event_rejected:
  assumes "isValid i" "findById i st = Some ev"
    and "effective new_Date (p_startTime b) (startTime ev) = Date s"
    and "effective new_Date (p_endTime b) (endTime ev) = Date e"
    and "e \<le> s"
  shows "put_event isValid new_Date now i b st =
           (Response 400 (Error ''End time must be after start time''), st)"
  using assms by (simp add: put_event_def effective_def)

lemma put_event_accepted:
  assumes "isValid i" "findById i st = Some ev"
    and "effective new_Date (p_startTime b) (startTime ev) = Date s"
    and "effective new_Date (p_endTime b) (endTime ev) = Date e"
    and "s < e"
  shows "(\<exists>p. put_event isValid new_Date now i b st = (Response 400 (SchemaError p), st)) \<or>
         (\<exists>ev'. put_event isValid new_Date now i b st =
                  (Response 200 (EventDoc ev'), update_first i (\<lambda>_. ev') st) \<and>
                findById i (update_first i (\<lambda>_. ev') st) = Some ev' \<and>
                startTime ev' = s \<and> endTime ev' = e)"
proof -
  define u where "u = \<lparr>u_title = p_title b,
                            u_description = p_description b,
                            u_startTime = map_option (\<lambda>_. Date s) (p_startTime b),
                            u_endTime = map_option (\<lambda>_. Date e) (p_endTime b),
                            u_allDay = p_allDay b,
                            u_color = p_color b,
                            u_location = p_location b,
                            u_recurring = p_recurring b,
                            u_updatedAt = now\<rparr>"
  have pre: "pre_findOneAndUpdate u = None"
    using assms(5) by (auto simp: pre_findOneAndUpdate_def u_def split: option.splits)
  have valid: "u_startTime u \<noteq> Some InvalidDate" "u_endTime u \<noteq> Some InvalidDate"
    by (auto simp: u_def)
  have put: "put_event isValid new_Date now i b st =
          (case findByIdAndUpdate i u st of
             Inl err \<Rightarrow> (catch_write err, st)
           | Inr (ev, st') \<Rightarrow> (Response 200 (json_event ev), st'))"
    using assms by (auto simp: put_event_def u_def effective_def split: option.splits)
  show ?thesis
  proof (cases "validate_update u")
    case (Some err)
    with json_catch_write_validation [OF Some valid] pre put show ?thesis
      by (auto simp: findByIdAndUpdate_def)
  next
    case None
    have s: "startTime (apply_update u ev) = s" and e: "endTime (apply_update u ev) = e"
      using assms(3,4)
      by (auto simp: apply_update_def u_def effective_def split: option.splits)
    have "update_first i (apply_update u) st = update_first i (\<lambda>_. apply_update u ev) st"
      using assms(2) by (induction st) (auto simp: findById_def)
    moreover have "findById i (update_first i (apply_update u) st) = Some (apply_update u ev)"
      using assms(2) findById_Some [OF assms(2)]
      by (intro findById_update_first) (simp_all add: eid_apply_update)
    ultimately show ?thesis
      using None pre put assms(2) s e by (auto simp: findByIdAndUpdate_def)
  qed
qed

text \<open>
  Claim C3. An update of an existing event that supplies only one of \<open>startTime\<close> and
  \<open>endTime\<close> compares the supplied value with the stored value of the other field:
  with \<open>s\<close> and \<open>e\<close> the effective start and end, the response is the 400
  "End time must be after start time" exactly when \<open>e \<le> s\<close>; a successful update
  stores the effective pair; and every response other than 200 leaves the store
  unchanged.
\<close>

theorem partial_update_effective_pair:
  assumes "isValid i" "findById i st = Some ev"
    and "(p_startTime b = Some a \<and> p_endTime b = None \<and> new_Date a = Date t \<and>
          s = t \<and> e = endTime ev) \<or>
         (p_startTime b = None \<and> p_endTime b = Some a \<and> new_Date a = Date t \<and>
          s = startTime ev \<and> e = t)"
  shows "(e \<le> s \<longrightarrow>
            put_event isValid new_Date now i b st =
              (Response 400 (Error ''End time must be after start time''), st)) \<and>
         (s < e \<longrightarrow>
            json (fst (put_event isValid new_Date now i b st)) \<noteq>
              Error ''End time must be after start time'' \<and>
            (status (fst (put_event isValid new_Date now i b st)) = 200 \<longrightarrow>
               (\<exists>ev'. fst (put_event isValid new_Date now i b st) = Response 200 (EventDoc ev') \<and>
                  findById i (snd (put_event isValid new_Date now i b st)) = Some ev' \<and>
                  startTime ev' = s \<and> endTime ev' = e))) \<and>
         (status (fst (put_event isValid new_Date now i b st)) \<noteq> 200 \<longrightarrow>
            snd (put_event isValid new_Date now i b st) = st)"
proof -
  have eff: "effective new_Date (p_startTime b) (startTime ev) = Date s"
    "effective new_Date (p_endTime b) (endTime ev) = Date e"
    using assms(3) by (auto simp: effective_def)
  have 1: "e \<le> s \<longrightarrow>
            put_event isValid new_Date now i b st =
              (Response 400 (Error ''End time must be after start time''), st)"
    using put_event_rejected [of isValid i st ev new_Date b s e now] assms(1,2) eff by simp
  have 2: "s < e \<longrightarrow>
            json (fst (put_event isValid new_Date now i b st)) \<noteq>
              Error ''End time must be after start time'' \<and>
            (status (fst (put_event isValid new_Date now i b st)) = 200 \<longrightarrow>
               (\<exists>ev'. fst (put_event isValid new_Date now i b st) = Response 200 (EventDoc ev') \<and>
                  findById i (snd (put_event isValid new_Date now i b st)) = Some ev' \<and>
                  startTime ev' = s \<and> endTime ev' = e))"
    using put_event_accepted [of isValid i st ev new_Date b s e now] assms(1,2) eff by auto
  from 1 2 put_event_no_write [of isValid new_Date now i b st] show ?thesis by blast
qed

theorem partial_update_effective_pair_witness:
  "put_event (\<lambda>i. True) sample_Date 1704000000009 ''a3''
     (sample_update (Some ''2024-01-15T12:00:00.000Z'') None) sample_store =
     (Response 400 (Error ''End time must be after start time''), sample_store) \<and>
   (\<exists>ev'. fst (put_event (\<lambda>i. True) sample_Date 1704000000009 ''a3''
            (sample_update None (Some ''2024-01-15T12:00:00.000Z'')) sample_store) =
            Response 200 (EventDoc ev') \<and>
          startTime ev' = 1705312800000 \<and> endTime ev' = 1705320000000)"
proof -
  have f: "findById ''a3'' sample_store = Some (sample_store ! 2)"
    by (simp add: findById_def sample_store_def)
  have v: "startTime (sample_store ! 2) = 1705312800000" "endTime (sample_store ! 2) = 1705316400000"
    by (simp_all add: sample_store_def)
  have ok: "status (fst (put_event (\<lambda>i. True) sample_Date 1704000000009 ''a3''
            (sample_update None (Some ''2024-01-15T12:00:00.000Z'')) sample_store)) = 200"
    by (simp add: put_event_def Let_def f v sample_update_def effective_def sample_Date_simps
        findByIdAndUpdate_def pre_findOneAndUpdate_def validate_update_def endTime_validator_def)
  have a: "(p_startTime (sample_update (Some ''2024-01-15T12:00:00.000Z'') None) =
              Some ''2024-01-15T12:00:00.000Z'' \<and>
            p_endTime (sample_update (Some ''2024-01-15T12:00:00.000Z'') None) = None \<and>
            sample_Date ''2024-01-15T12:00:00.000Z'' = Date 1705320000000 \<and>
            (1705320000000 :: int) = 1705320000000 \<and>
            1705316400000 = endTime (sample_store ! 2)) \<or>
           (p_startTime (sample_update (Some ''2024-01-15T12:00:00.000Z'') None) = None \<and>
            p_endTime (sample_update (Some ''2024-01-15T12:00:00.000Z'') None) =
              Some ''2024-01-15T12:00:00.000Z'' \<and>
            sample_Date ''2024-01-15T12:00:00.000Z'' = Date 1705320000000 \<and>
            1705320000000 = startTime (sample_store ! 2) \<and> (1705316400000 :: int) = 1705320000000)"
    by (simp add: sample_update_def sample_Date_simps v)
  have b: "(p_startTime (sample_update None (Some ''2024-01-15T12:00:00.000Z'')) =
              Some ''2024-01-15T12:00:00.000Z'' \<and>
            p_endTime (sample_update None (Some ''2024-01-15T12:00:00.000Z'')) = None \<and>
            sample_Date ''2024-01-15T12:00:00.000Z'' = Date 1705320000000 \<and>
            (1705312800000 :: int) = 1705320000000 \<and>
            1705320000000 = endTime (sample_store ! 2)) \<or>
           (p_startTime (sample_update None (Some ''2024-01-15T12:00:00.000Z'')) = None \<and>
            p_endTime (sample_update None (Some ''2024-01-15T12:00:00.000Z'')) =
              Some ''2024-01-15T12:00:00.000Z'' \<and>
            sample_Date ''2024-01-15T12:00:00.000Z'' = Date 1705320000000 \<and>
            1705312800000 = startTime (sample_store ! 2) \<and> (1705320000000 :: int) = 1705320000000)"
    by (simp add: sample_update_def sample_Date_simps v)
  from partial_update_effective_pair [of "\<lambda>i. True" "''a3''" sample_store "sample_store ! 2"
      _ _ sample_Date _ _ _ 1704000000009, OF _ f a]
    partial_update_effective_pair [of "\<lambda>i. True" "''a3''" sample_store "sample_store ! 2"
      _ _ sample_Date _ _ _ 1704000000009, OF _ f b] ok
  show ?thesis by auto
qed

section \<open>Invariants of the store\<close>

text \<open>
  Every route keeps the identifiers of the store distinct and keeps the end of every
  stored event after its start.
\<close>

lemma map_eid_update_first:
  "(\<And>e. eid (f e) = eid e) \<Longrightarrow> map eid (update_first i f st) = map eid st"
  by (induction st) simp_all

lemma post_event_distinct:
  "distinct (map eid st) \<Longrightarrow> distinct (map eid (snd (post_event new_Date now oid b st)))"
  by (auto simp: post_event_def Let_def save_def pre_save_def
      split: jsdate.splits sum.splits prod.splits option.splits if_splits)

lemma put_event_ids:
  "map eid (snd (put_event isValid new_Date now i b st)) = map eid st"
  by (auto simp: put_event_def Let_def findByIdAndUpdate_def map_eid_update_first eid_apply_update
      split: option.splits sum.splits prod.splits if_splits)

lemma delete_event_distinct:
  "distinct (map eid st) \<Longrightarrow> distinct (map eid (snd (delete_event isValid i st)))"
  by (auto simp: delete_event_def findByIdAndDelete_def distinct_map distinct_remove1
      split: option.splits intro: inj_on_subset dest: notin_set_remove1)

lemma catch_write_not_created: "catch_write err \<noteq> Response 201 body'"
  by (cases err) simp_all

lemma post_event_created:
  assumes "post_event new_Date now oid b st = (Response 201 body', st')"
  shows "\<exists>ev. body' = EventDoc ev \<and> st' = st @ [ev] \<and> eid ev = oid \<and> startTime ev < endTime ev"
  using assms
  by (auto simp: post_event_def Let_def save_def pre_save_def catch_write_not_created
      split: jsdate.splits sum.splits prod.splits option.splits if_splits)

lemma update_first_end_after_start:
  assumes "list_all (\<lambda>ev. startTime ev < endTime ev) st"
    and "\<And>e. e \<in> set st \<Longrightarrow> eid e = i \<Longrightarrow> startTime (f e) < endTime (f e)"
  shows "list_all (\<lambda>ev. startTime ev < endTime ev) (update_first i f st)"
  using assms by (induction st) auto

lemma put_event_end_after_start:
  assumes "list_all (\<lambda>ev. startTime ev < endTime ev) st"
  shows "list_all (\<lambda>ev. startTime ev < endTime ev) (snd (put_event isValid new_Date now i b st))"
proof (cases "status (fst (put_event isValid new_Date now i b st)) = 200")
  case False
  then show ?thesis using assms put_event_no_write by metis
next
  case True
  then obtain ev where f: "findById i st = Some ev" and v: "isValid i"
    by (auto simp: put_event_def split: if_splits option.splits)
  obtain s e where eff: "effective new_Date (p_startTime b) (startTime ev) = Date s"
    "effective new_Date (p_endTime b) (endTime ev) = Date e" "s < e"
    using True f v
    by (cases "effective new_Date (p_startTime b) (startTime ev)";
        cases "effective new_Date (p_endTime b) (endTime ev)")
       (auto simp: put_event_def Let_def effective_def split: if_splits option.splits)
  from put_event_accepted [of isValid i st ev new_Date b s e now] v f eff True
  obtain ev' where p: "snd (put_event isValid new_Date now i b st) = update_first i (\<lambda>_. ev') st"
    and t: "startTime ev' < endTime ev'"
    by auto
  show ?thesis unfolding p using assms t by (intro update_first_end_after_start) simp_all
qed

lemma post_event_end_after_start:
  assumes "list_all (\<lambda>ev. startTime ev < endTime ev) st"
  shows "list_all (\<lambda>ev. startTime ev < endTime ev) (snd (post_event new_Date now oid b st))"
proof (cases "status (fst (post_event new_Date now oid b st)) = 201")
  case False
  then show ?thesis using assms post_event_no_write by metis
next
  case True
  then obtain body' st' where "post_event new_Date now oid b st = (Response 201 body', st')"
    by (cases "post_event new_Date now oid b st"; cases "fst (post_event new_Date now oid b st)") auto
  with post_event_created [OF this] assms show ?thesis by auto
qed

lemma delete_event_end_after_start:
  assumes "list_all (\<lambda>ev. startTime ev < endTime ev) st"
  shows "list_all (\<lambda>ev. startTime ev < endTime ev) (snd (delete_event isValid i st))"
  using assms
  by (auto simp: delete_event_def findByIdAndDelete_def list_all_iff
      split: option.splits dest: notin_set_remove1)

section \<open>Properties of the hour-slot filter\<close>

lemma hour_split: "(x::int) mod 86400000 = x mod 86400000 div 3600000 * 3600000 + x mod 3600000"
proof -
  have "x mod 86400000 mod 3600000 = x mod 3600000"
    by (rule mod_mod_cancel) simp
  then show ?thesis
    using div_mult_mod_eq [of "x mod 86400000" 3600000] by simp
qed

lemma minute_split: "(x::int) mod 3600000 = x mod 3600000 div 60000 * 60000 + x mod 60000"
proof -
  have "x mod 3600000 mod 60000 = x mod 60000"
    by (rule mod_mod_cancel) simp
  then show ?thesis
    using div_mult_mod_eq [of "x mod 3600000" 60000] by simp
qed

lemma mod_hour_shift: "(t + k * 3600000 + off) mod 3600000 = (t + off) mod (3600000 :: int)"
proof -
  have e: "t + k * 3600000 + off = (t + off) + k * 3600000"
    by (simp only: ac_simps)
  show ?thesis unfolding e by (rule mod_mult_self1)
qed

lemma getMinutes_setHours: "getMinutes off (setHours off t h) = getMinutes off t"
  unfolding getMinutes_def setHours_def by (simp only: mod_hour_shift)

lemma slot_start:
  "setMinutes off (setHours off t h) 0 = startOfDay off t + h * 3600000 + (t + off) mod 60000"
proof -
  have "setMinutes off (setHours off t h) 0 =
        t + (h - getHours off t) * 3600000 - getMinutes off t * 60000"
    by (simp add: setMinutes_def getMinutes_setHours) (simp add: setHours_def)
  also have "\<dots> = startOfDay off t + h * 3600000 + (t + off) mod 60000"
    using hour_split [of "t + off"] minute_split [of "t + off"]
    by (simp add: startOfDay_def getHours_def getMinutes_def algebra_simps)
  finally show ?thesis .
qed

lemma getEventsForTimeSlot_iff:
  assumes "parseISO (w_startTime E) = Date x" "parseISO (w_endTime E) = Date y"
    and "slotStart = setMinutes off (setHours off d hour) 0"
    and "slotEnd = setMinutes off (setHours off d (hour + 1)) 0"
  shows "E \<in> set (getEventsForTimeSlot parseISO off events (Date d) hour) \<longleftrightarrow>
         E \<in> set events \<and>
         ((slotStart \<le> x \<and> x < slotEnd) \<or> (slotStart < y \<and> y \<le> slotEnd) \<or>
          (x \<le> slotStart \<and> slotEnd \<le> y))"
  using assms by (auto simp: getEventsForTimeSlot_def Let_def)

text \<open>
  Claim C4. The hour-slot filter keeps an event exactly when its start lies in
  \<open>[slotStart, slotEnd)\<close>, or its end lies in \<open>(slotStart, slotEnd]\<close>, or it contains
  the slot. The slot of \<open>hour\<close> begins \<open>hour\<close> hours after the start of the local day
  of \<open>d\<close>, shifted by the seconds and milliseconds of \<open>d\<close>, and lasts one hour.
\<close>

theorem half_open_slot_overlap:
  assumes "parseISO (w_startTime E) = Date x" "parseISO (w_endTime E) = Date y"
    and "slotStart = startOfDay off d + hour * 3600000 + (d + off) mod 60000"
    and "slotEnd = slotStart + 3600000"
  shows "E \<in> set (getEventsForTimeSlot parseISO off events (Date d) hour) \<longleftrightarrow>
         E \<in> set events \<and>
         ((slotStart \<le> x \<and> x < slotEnd) \<or> (slotStart < y \<and> y \<le> slotEnd) \<or>
          (x \<le> slotStart \<and> slotEnd \<le> y))"
proof -
  have "slotStart = setMinutes off (setHours off d hour) 0"
    using assms(3) by (simp add: slot_start)
  moreover have "slotEnd = setMinutes off (setHours off d (hour + 1)) 0"
    using assms(3,4) by (simp add: slot_start algebra_simps)
  ultimately show ?thesis
    using getEventsForTimeSlot_iff [OF assms(1,2)] by simp
qed

theorem half_open_slot_overlap_witness:
  "sample_wire ! 1 \<in> set (getEventsForTimeSlot sample_Date 0 sample_wire (Date 1705276800000) 10) \<and>
   sample_wire ! 3 \<notin> set (getEventsForTimeSlot sample_Date 0 sample_wire (Date 1705276800000) 11) \<and>
   sample_wire ! 3 \<notin> set (getEventsForTimeSlot sample_Date 0 sample_wire (Date 1705276800000) 9)"
proof -
  have p: "sample_Date (w_startTime (sample_wire ! 1)) = Date 1705312800000"
    "sample_Date (w_endTime (sample_wire ! 1)) = Date 1705314600000"
    "sample_Date (w_startTime (sample_wire ! 3)) = Date 1705312800000"
    "sample_Date (w_endTime (sample_wire ! 3)) = Date 1705316400000"
    by (simp_all add: sample_wire_def sample_Date_simps)
  have s: "(1705312800000 :: int) = startOfDay 0 1705276800000 + 10 * 3600000 + (1705276800000 + 0) mod 60000"
    "(1705316400000 :: int) = startOfDay 0 1705276800000 + 11 * 3600000 + (1705276800000 + 0) mod 60000"
    "(1705309200000 :: int) = startOfDay 0 1705276800000 + 9 * 3600000 + (1705276800000 + 0) mod 60000"
    by (simp_all add: startOfDay_def)
  have e: "(1705316400000 :: int) = 1705312800000 + 3600000"
    "(1705320000000 :: int) = 1705316400000 + 3600000"
    "(1705312800000 :: int) = 1705309200000 + 3600000"
    by simp_all
  have m: "sample_wire ! 1 \<in> set sample_wire" "sample_wire ! 3 \<in> set sample_wire"
    by (simp_all add: sample_wire_def)
  from half_open_slot_overlap [OF p(1,2) s(1) e(1), of sample_wire]
    half_open_slot_overlap [OF p(3,4) s(2) e(2), of sample_wire]
    half_open_slot_overlap [OF p(3,4) s(3) e(3), of sample_wire] m
  show ?thesis by simp
qed

section \<open>Properties of the layout\<close>










text \<open>
  Claim C2. The week view clamps an event to the displayed day before computing its
  position (\<open>WeekView_position_timed\<close>); the day view does not. On 16 January the
  event from 15 January 22:00 to 16 January 02:00 is placed by the day view at top
  1320 with height 20, and by the week view at top 0 with height 120; the event
  spanning 10 to 20 January gets height 20 in the day view and 1439 in the week view.
\<close>

theorem day_view_unclamped:
  "DayView_positions sample_Date 0 sample_wire (Date 1705406400000) =
     [(sample_wire ! 0, \<lparr>top = Px (Some 0), height = Px (Some 20)\<rparr>),
      (sample_wire ! 2, \<lparr>top = Px (Some 1320), height = Px (Some 20)\<rparr>)] \<and>
   WeekView_positions sample_Date 0 sample_wire (Date 1705406400000) =
     [(sample_wire ! 0, \<lparr>top = Px (Some 0), height = Px (Some 1439)\<rparr>),
      (sample_wire ! 2, \<lparr>top = Px (Some 0), height = Px (Some 120)\<rparr>)]"
  by (simp add: DayView_positions_def DayView_dayEvents_def DayView_getEventPosition_def
      WeekView_positions_def getEventsForDay_def WeekView_getEventPosition_def
      getDayStart_def getDayEnd_def endOfDay_def startOfDay_def setHours4_def
      position_px_def getHours_def getMinutes_def sample_wire_def sample_Date_simps)

end
